theory Spec2Isabelle
  imports Complex_Main
begin

section \<open>The Monte Carlo NPV engine of Montecarlo.py\<close>

text \<open>
  The engine is the function \<^verbatim>\<open>monte_carlo_simulation\<close> (lines 5 to 20 of
  \<^verbatim>\<open>Montecarlo.py\<close>). Its numbers are Python and NumPy floats; they are embedded as
  exact reals, so every statement below is about the arithmetic the code writes down,
  not about rounding, overflow, signed zeros, NaN or Infinity. In particular a division
  by zero is not distinguished here (HOL gives it the value 0, NumPy gives inf or nan).
  The two counts are Python integers and are embedded as \<open>int\<close>.

  Failures of the code are values: the result of a call is \<open>Inl\<close> of the exception
  or \<open>Inr\<close> of what is returned.
\<close>

datatype py_error = ValueError | IndexError

subsection \<open>The random source\<close>

text \<open>
  \<^verbatim>\<open>np.random\<close> is a global generator. Its state is embedded as the sequence of
  standard normal variates it will hand out from now on: \<open>g 0\<close> is the next one.
  Seeding the generator fixes this sequence.
\<close>

type_synonym rng = "nat \<Rightarrow> real"

text \<open>
  Modelled from the spec: \<^verbatim>\<open>np.random.normal(loc, scale, size)\<close> is a function of
  NumPy, which is not part of the repository. Following step 1 of the engine's algorithm
  it draws \<open>n\<close> independent samples of the normal distribution with mean \<open>loc\<close> and
  standard deviation \<open>scale\<close>: the next \<open>n\<close> standard normal variates of the generator,
  scaled and shifted, with no truncation. NumPy's own argument check is kept: a negative
  standard deviation and a negative number of samples raise \<^verbatim>\<open>ValueError\<close>.
  The generator is returned advanced by \<open>n\<close> draws.
\<close>

definition np_random_normal ::
  "real \<Rightarrow> real \<Rightarrow> int \<Rightarrow> rng \<Rightarrow> py_error + (real list \<times> rng)" where
  "np_random_normal loc scale n g =
     (if scale < 0 \<or> n < 0 then Inl ValueError
      else Inr (map (\<lambda>k. loc + scale * g k) [0..<nat n], \<lambda>k. g (k + nat n)))"

subsection \<open>One year: lines 12 to 16\<close>

definition revenue :: "real \<Rightarrow> real" where
  "revenue s = s"

definition costs :: "real \<Rightarrow> real \<Rightarrow> real \<Rightarrow> real" where
  "costs variable_cost_pct fixed_costs s = (variable_cost_pct * s) + fixed_costs"

definition gross_profit :: "real \<Rightarrow> real \<Rightarrow> real \<Rightarrow> real" where
  "gross_profit variable_cost_pct fixed_costs s =
     revenue s - costs variable_cost_pct fixed_costs s"

definition taxes :: "real \<Rightarrow> real \<Rightarrow> real \<Rightarrow> real \<Rightarrow> real" where
  "taxes variable_cost_pct fixed_costs tax_rate s =
     gross_profit variable_cost_pct fixed_costs s * tax_rate"

definition net_cash_flow :: "real \<Rightarrow> real \<Rightarrow> real \<Rightarrow> real \<Rightarrow> real" where
  "net_cash_flow variable_cost_pct fixed_costs tax_rate s =
     gross_profit variable_cost_pct fixed_costs s - taxes variable_cost_pct fixed_costs tax_rate s"

subsection \<open>The loop over the years of a trial: lines 10 to 17\<close>

text \<open>
  \<^verbatim>\<open>for s in simulated_sales: ... net_cash_flows.append(net_cash_flow)\<close>, with the list
  built so far as an accumulator.
\<close>

fun cash_flow_loop :: "real \<Rightarrow> real \<Rightarrow> real \<Rightarrow> real list \<Rightarrow> real list \<Rightarrow> real list" where
  "cash_flow_loop variable_cost_pct fixed_costs tax_rate [] net_cash_flows = net_cash_flows"
| "cash_flow_loop variable_cost_pct fixed_costs tax_rate (s # simulated_sales) net_cash_flows =
     cash_flow_loop variable_cost_pct fixed_costs tax_rate simulated_sales
       (net_cash_flows @ [net_cash_flow variable_cost_pct fixed_costs tax_rate s])"

subsection \<open>The net present value of a trial: line 18\<close>

text \<open>
  \<^verbatim>\<open>sum(net_cash_flows[t] / (1 + discount_rate) ** (t + 1) for t in range(years))\<close>:
  Python's \<^verbatim>\<open>sum\<close> starts from 0 and adds the terms from left to right as the
  generator yields them; an index past the end of the list raises \<^verbatim>\<open>IndexError\<close>.
\<close>

fun discounted_sum :: "real list \<Rightarrow> real \<Rightarrow> nat list \<Rightarrow> real \<Rightarrow> py_error + real" where
  "discounted_sum net_cash_flows discount_rate [] acc = Inr acc"
| "discounted_sum net_cash_flows discount_rate (t # ts) acc =
     (if t < length net_cash_flows
      then discounted_sum net_cash_flows discount_rate ts
             (acc + net_cash_flows ! t / (1 + discount_rate) ^ (t + 1))
      else Inl IndexError)"

definition npv :: "real list \<Rightarrow> real \<Rightarrow> int \<Rightarrow> real \<Rightarrow> py_error + real" where
  "npv net_cash_flows discount_rate years initial_investment =
     (case discounted_sum net_cash_flows discount_rate [0..<nat years] 0 of
        Inl e \<Rightarrow> Inl e
      | Inr sum_of_terms \<Rightarrow> Inr (sum_of_terms - initial_investment))"

subsection \<open>The loop over the trials: lines 7 to 20\<close>

text \<open>
  \<^verbatim>\<open>for _ in range(num_simulations)\<close>, with the trials still to run as the first
  argument, the list \<^verbatim>\<open>npv_simulations\<close> built so far and the generator as state.
  An exception of the sampler or of line 18 ends the call.
\<close>

fun simulation_loop ::
  "nat \<Rightarrow> int \<Rightarrow> real \<Rightarrow> real \<Rightarrow> real \<Rightarrow> real \<Rightarrow> real \<Rightarrow> real \<Rightarrow> real \<Rightarrow>
   real list \<Rightarrow> rng \<Rightarrow> py_error + (real list \<times> rng)" where
  "simulation_loop 0 years discount_rate base_sales sales_deviation
     variable_cost_pct fixed_costs tax_rate initial_investment npv_simulations g =
     Inr (npv_simulations, g)"
| "simulation_loop (Suc k) years discount_rate base_sales sales_deviation
     variable_cost_pct fixed_costs tax_rate initial_investment npv_simulations g =
     (case np_random_normal base_sales (sales_deviation * base_sales) years g of
        Inl e \<Rightarrow> Inl e
      | Inr (simulated_sales, g') \<Rightarrow>
          (case npv (cash_flow_loop variable_cost_pct fixed_costs tax_rate simulated_sales [])
                  discount_rate years initial_investment of
             Inl e \<Rightarrow> Inl e
           | Inr v \<Rightarrow>
               simulation_loop k years discount_rate base_sales sales_deviation
                 variable_cost_pct fixed_costs tax_rate initial_investment
                 (npv_simulations @ [v]) g'))"

definition monte_carlo_simulation ::
  "int \<Rightarrow> int \<Rightarrow> real \<Rightarrow> real \<Rightarrow> real \<Rightarrow> real \<Rightarrow> real \<Rightarrow> real \<Rightarrow> real \<Rightarrow>
   rng \<Rightarrow> py_error + (real list \<times> rng)" where
  "monte_carlo_simulation num_simulations years discount_rate base_sales sales_deviation
     variable_cost_pct fixed_costs tax_rate initial_investment g =
     simulation_loop (nat num_simulations) years discount_rate base_sales sales_deviation
       variable_cost_pct fixed_costs tax_rate initial_investment [] g"

subsection \<open>The deterministic value of the spec\<close>

text \<open>
  The deterministic discounted cash flow of the spec, written from its words and not from
  the code: base sales every year, the yearly cash flow after variable costs, fixed costs
  and tax, times the sum of the discount factors of the periods 1 to \<open>years\<close>, net of the
  initial investment.
\<close>

definition deterministic_npv ::
  "int \<Rightarrow> real \<Rightarrow> real \<Rightarrow> real \<Rightarrow> real \<Rightarrow> real \<Rightarrow> real \<Rightarrow> real" where
  "deterministic_npv years discount_rate base_sales variable_cost_pct fixed_costs tax_rate
     initial_investment =
     ((1 - variable_cost_pct) * base_sales - fixed_costs) * (1 - tax_rate)
       * (\<Sum>t = 1..nat years. 1 / (1 + discount_rate) ^ t)
     - initial_investment"

subsection \<open>The percentiles of the summary: lines 49 and 50\<close>

text \<open>
  Modelled from the spec: \<^verbatim>\<open>np.percentile(a, q)\<close> is a function of NumPy, which is not
  part of the repository. Following the spec's Statistics Summarizer, for a non-empty
  input of \<open>n\<close> samples the percentile \<open>q\<close> is read at the index \<open>q / 100 * (n - 1)\<close> of
  the order statistics, linearly interpolated between the two order statistics that
  bracket the index. The spec defines no statistic of an empty input or for a \<open>q\<close>
  outside 0 to 100: there the value is \<open>None\<close>.
\<close>

definition np_percentile :: "real list \<Rightarrow> real \<Rightarrow> real option" where
  "np_percentile a q =
     (if a = [] \<or> q < 0 \<or> 100 < q then None
      else
        let sorted_a = sort a;
            n = length a;
            index = q / 100 * real (n - 1);
            lo = nat \<lfloor>index\<rfloor>;
            hi = min (lo + 1) (n - 1);
            fraction = index - real lo
        in Some (sorted_a ! lo + fraction * (sorted_a ! hi - sorted_a ! lo)))"

section \<open>What the loops compute\<close>

lemma cash_flow_loop_eq:
  "cash_flow_loop v f tx ss acc = acc @ map (net_cash_flow v f tx) ss"
  by (induction ss arbitrary: acc) simp_all

lemma discounted_sum_eq:
  "\<forall>t\<in>set ts. t < length ncf \<Longrightarrow>
   discounted_sum ncf r ts acc = Inr (acc + (\<Sum>t\<leftarrow>ts. ncf ! t / (1 + r) ^ (t + 1)))"
  by (induction ts arbitrary: acc) (simp_all add: add.assoc)

lemma discounted_sum_fails:
  "\<exists>t\<in>set ts. \<not> t < length ncf \<Longrightarrow> discounted_sum ncf r ts acc = Inl IndexError"
  by (induction ts arbitrary: acc) auto

lemma npv_eq:
  assumes "nat years \<le> length ncf"
  shows "npv ncf r years I = Inr ((\<Sum>t<nat years. ncf ! t / (1 + r) ^ (t + 1)) - I)"
proof -
  have "\<forall>t\<in>set [0..<nat years]. t < length ncf"
    using assms by auto
  then have "discounted_sum ncf r [0..<nat years] 0 =
      Inr (0 + (\<Sum>t\<leftarrow>[0..<nat years]. ncf ! t / (1 + r) ^ (t + 1)))"
    by (rule discounted_sum_eq)
  then show ?thesis
    by (simp add: npv_def interv_sum_list_conv_sum_set_nat lessThan_atLeast0)
qed

lemma np_random_normal_ok:
  "0 \<le> scale \<Longrightarrow> 0 \<le> n \<Longrightarrow>
   np_random_normal loc scale n g =
     Inr (map (\<lambda>k. loc + scale * g k) [0..<nat n], \<lambda>k. g (k + nat n))"
  by (simp add: np_random_normal_def)

lemma np_random_normal_fails:
  "scale < 0 \<or> n < 0 \<Longrightarrow> np_random_normal loc scale n g = Inl ValueError"
  by (simp add: np_random_normal_def)

text \<open>
  One trial: the sampler's values go through the loop over the years and line 18. The
  list of cash flows is as long as the horizon, so line 18 never indexes past its end.
\<close>

lemma trial_eq:
  assumes "0 \<le> d * b" "0 \<le> years"
    and "np_random_normal b (d * b) years g = Inr (sales, g')"
  shows "npv (cash_flow_loop v f tx sales []) r years I =
       Inr ((\<Sum>t<nat years. net_cash_flow v f tx (b + d * b * g t) / (1 + r) ^ (t + 1)) - I)"
proof -
  have s: "sales = map (\<lambda>k. b + d * b * g k) [0..<nat years]"
    using assms by (simp add: np_random_normal_def)
  have "npv (cash_flow_loop v f tx sales []) r years I =
      Inr ((\<Sum>t<nat years. cash_flow_loop v f tx sales [] ! t / (1 + r) ^ (t + 1)) - I)"
    by (rule npv_eq) (simp add: s cash_flow_loop_eq)
  moreover have "(\<Sum>t<nat years. cash_flow_loop v f tx sales [] ! t / (1 + r) ^ (t + 1)) =
      (\<Sum>t<nat years. net_cash_flow v f tx (b + d * b * g t) / (1 + r) ^ (t + 1))"
    by (rule sum.cong) (simp_all add: s cash_flow_loop_eq)
  ultimately show ?thesis by simp
qed

text \<open>
  The loop over the trials, when the sampler accepts its arguments: trial \<open>i\<close> reads the
  draws \<open>i * years\<close> to \<open>(i + 1) * years - 1\<close> of the generator and appends its value
  after those of the trials before it.
\<close>

lemma simulation_loop_eq:
  assumes "0 \<le> d * b" "0 \<le> years"
  shows "simulation_loop k years r b d v f tx I acc g =
     Inr (acc @ map (\<lambda>i. (\<Sum>t<nat years.
                 net_cash_flow v f tx (b + d * b * g (i * nat years + t)) / (1 + r) ^ (t + 1)) - I)
               [0..<k],
          \<lambda>j. g (j + k * nat years))"
proof (induction k arbitrary: acc g)
  case 0
  show ?case by simp
next
  case (Suc k)
  have n: "np_random_normal b (d * b) years g =
      Inr (map (\<lambda>k. b + d * b * g k) [0..<nat years], \<lambda>k. g (k + nat years))"
    using assms by (rule np_random_normal_ok)
  note t = trial_eq [OF assms n, of v f tx r I]
  show ?case
    unfolding simulation_loop.simps n sum.case prod.case t Suc.IH map_upt_Suc
    by (simp add: add.commute add.left_commute)
qed

lemma simulation_loop_fails:
  "d * b < 0 \<or> years < 0 \<Longrightarrow>
   simulation_loop (Suc k) years r b d v f tx I acc g = Inl ValueError"
  by (simp add: np_random_normal_def)

section \<open>What a call of the engine returns\<close>

lemma monte_carlo_simulation_eq:
  assumes "0 \<le> d * b" "0 \<le> years"
  shows "monte_carlo_simulation n years r b d v f tx I g =
     Inr (map (\<lambda>i. (\<Sum>t<nat years.
                 net_cash_flow v f tx (b + d * b * g (i * nat years + t)) / (1 + r) ^ (t + 1)) - I)
               [0..<nat n],
          \<lambda>j. g (j + nat n * nat years))"
  unfolding monte_carlo_simulation_def simulation_loop_eq [OF assms] by simp

lemma monte_carlo_simulation_fails:
  assumes "d * b < 0 \<or> years < 0" "1 \<le> n"
  shows "monte_carlo_simulation n years r b d v f tx I g = Inl ValueError"
proof -
  obtain k where k: "nat n = Suc k"
    using assms(2) by (cases "nat n") auto
  show ?thesis
    unfolding monte_carlo_simulation_def k using assms(1) by (rule simulation_loop_fails)
qed

lemma monte_carlo_simulation_no_trials:
  "n \<le> 0 \<Longrightarrow> monte_carlo_simulation n years r b d v f tx I g = Inr ([], g)"
  by (simp add: monte_carlo_simulation_def)

lemma monte_carlo_simulation_success:
  assumes "monte_carlo_simulation n years r b d v f tx I g = Inr (res, g')" "res \<noteq> []"
  shows "0 \<le> d * b \<and> 0 \<le> years"
proof (rule ccontr)
  assume "\<not> (0 \<le> d * b \<and> 0 \<le> years)"
  then have bad: "d * b < 0 \<or> years < 0" by auto
  show False
  proof (cases "1 \<le> n")
    case True
    with bad assms(1) show False by (simp add: monte_carlo_simulation_fails)
  next
    case False
    then have "n \<le> 0" by simp
    with assms show False by (simp add: monte_carlo_simulation_no_trials)
  qed
qed




section \<open>The cash flow of a year\<close>

text \<open>
  C2. For every trial and every year with sampled sales \<open>s\<close>, the net cash flow the loop
  appends is \<open>(s - (variable_cost_pct * s + fixed_costs)) -
  (s - (variable_cost_pct * s + fixed_costs)) * tax_rate\<close>, with no clamping: at a
  positive tax rate a negative gross profit gives negative taxes, and the net cash flow
  is still the gross profit minus these taxes, so it lies above the gross profit.
\<close>

theorem net_cash_flow_not_clamped:
  "cash_flow_loop variable_cost_pct fixed_costs tax_rate simulated_sales [] =
     map (\<lambda>s. (s - (variable_cost_pct * s + fixed_costs))
              - (s - (variable_cost_pct * s + fixed_costs)) * tax_rate) simulated_sales
   \<and> (gross_profit variable_cost_pct fixed_costs s < 0 \<and> 0 < tax_rate \<longrightarrow>
        taxes variable_cost_pct fixed_costs tax_rate s < 0
        \<and> net_cash_flow variable_cost_pct fixed_costs tax_rate s =
            gross_profit variable_cost_pct fixed_costs s
              - taxes variable_cost_pct fixed_costs tax_rate s
        \<and> gross_profit variable_cost_pct fixed_costs s
            < net_cash_flow variable_cost_pct fixed_costs tax_rate s)"
proof (intro conjI impI)
  show "cash_flow_loop variable_cost_pct fixed_costs tax_rate simulated_sales [] =
     map (\<lambda>s. (s - (variable_cost_pct * s + fixed_costs))
              - (s - (variable_cost_pct * s + fixed_costs)) * tax_rate) simulated_sales"
    by (simp add: cash_flow_loop_eq net_cash_flow_def taxes_def gross_profit_def costs_def
        revenue_def)
next
  assume a: "gross_profit variable_cost_pct fixed_costs s < 0 \<and> 0 < tax_rate"
  then show t: "taxes variable_cost_pct fixed_costs tax_rate s < 0"
    by (simp add: taxes_def mult_neg_pos)
  show "net_cash_flow variable_cost_pct fixed_costs tax_rate s =
      gross_profit variable_cost_pct fixed_costs s - taxes variable_cost_pct fixed_costs tax_rate s"
    by (simp add: net_cash_flow_def)
  with t show "gross_profit variable_cost_pct fixed_costs s
      < net_cash_flow variable_cost_pct fixed_costs tax_rate s"
    by simp
qed

text \<open>
  The theorem at sales of 100 and 1000: the first year loses 140 before tax, the taxes
  are -42 and the net cash flow is -98.
\<close>

theorem net_cash_flow_not_clamped_witness:
  "cash_flow_loop 0.40 200 0.30 [100, 1000] [] =
     map (\<lambda>s. (s - (0.40 * s + 200)) - (s - (0.40 * s + 200)) * 0.30) [100, 1000]
   \<and> gross_profit 0.40 200 100 = - 140 \<and> (0::real) < 0.30
   \<and> taxes 0.40 200 0.30 100 = - 42
   \<and> net_cash_flow 0.40 200 0.30 100 = - 98
   \<and> cash_flow_loop 0.40 200 0.30 [100, 1000] [] = [- 98, 280]"
  using net_cash_flow_not_clamped [of "0.40" 200 "0.30" "[100, 1000]" 100]
  by (simp add: net_cash_flow_def taxes_def gross_profit_def costs_def revenue_def)

section \<open>The net present value of a trial\<close>

text \<open>
  C3. For every trial of a call that returns, the NPV sample is the sum over \<open>t\<close> from 0
  to \<open>years - 1\<close> of the net cash flow of year \<open>t\<close> divided by \<open>(1 + discount_rate)\<close> to
  the power \<open>t + 1\<close>, minus the initial investment: the cash flow of year 0 is discounted
  one full period. The sales of year \<open>t\<close> of trial \<open>i\<close> are the sampler's value for draw
  \<open>i * years + t\<close> of the generator.
\<close>

theorem npv_discounts_from_first_period:
  assumes "monte_carlo_simulation num_simulations years discount_rate base_sales sales_deviation
       variable_cost_pct fixed_costs tax_rate initial_investment g = Inr (npv_simulations, g')"
    and "i < length npv_simulations"
  shows "npv_simulations ! i =
     (\<Sum>t<nat years.
        net_cash_flow variable_cost_pct fixed_costs tax_rate
          (base_sales + sales_deviation * base_sales * g (i * nat years + t))
        / (1 + discount_rate) ^ (t + 1))
     - initial_investment"
proof -
  from assms(2) have "npv_simulations \<noteq> []" by auto
  with assms(1) have ok: "0 \<le> sales_deviation * base_sales" "0 \<le> years"
    using monte_carlo_simulation_success by blast+
  from assms show ?thesis
    unfolding monte_carlo_simulation_eq [OF ok] by auto
qed

text \<open>
  The theorem at the second of two trials of two years, with the draws 0, 1, 2, ...: the
  sales are 1400 and 1600, the cash flows 448 and 532.
\<close>

theorem npv_discounts_from_first_period_witness:
  "monte_carlo_simulation 2 2 0.10 1000 0.20 0.40 200 0.30 2000 (\<lambda>k. real k) =
     Inr ([280 / 1.10 + 364 / 1.10\<^sup>2 - 2000, 448 / 1.10 + 532 / 1.10\<^sup>2 - 2000],
          \<lambda>k. real (k + 4))
   \<and> 1 < length [280 / 1.10 + 364 / 1.10\<^sup>2 - 2000, 448 / 1.10 + 532 / 1.10\<^sup>2 - 2000 :: real]
   \<and> [280 / 1.10 + 364 / 1.10\<^sup>2 - 2000, 448 / 1.10 + 532 / 1.10\<^sup>2 - 2000] ! 1 =
       (\<Sum>t<nat 2. net_cash_flow 0.40 200 0.30 (1000 + 0.20 * 1000 * real (1 * nat 2 + t))
          / (1 + 0.10) ^ (t + 1)) - 2000"
proof -
  have r: "monte_carlo_simulation 2 2 0.10 1000 0.20 0.40 200 0.30 2000 (\<lambda>k. real k) =
     Inr ([280 / 1.10 + 364 / 1.10\<^sup>2 - 2000, 448 / 1.10 + 532 / 1.10\<^sup>2 - 2000],
          \<lambda>k. real (k + 4))"
    by (simp add: monte_carlo_simulation_def np_random_normal_def npv_def
        net_cash_flow_def taxes_def gross_profit_def costs_def revenue_def eval_nat_numeral
        upt_rec)
  have l: "1 < length [280 / 1.10 + 364 / 1.10\<^sup>2 - 2000, 448 / 1.10 + 532 / 1.10\<^sup>2 - 2000 :: real]"
    by simp
  show ?thesis
    by (intro conjI r l npv_discounts_from_first_period [OF r l])
qed

text \<open>
  C4. For the parameters \<open>num_simulations = 1\<close>, \<open>years = 1\<close>, \<open>discount_rate = 0.10\<close>,
  \<open>base_sales = 1000\<close>, \<open>sales_deviation = 0\<close>, \<open>variable_cost_pct = 0.40\<close>,
  \<open>fixed_costs = 200\<close>, \<open>tax_rate = 0.30\<close> and \<open>initial_investment = 2000\<close>, whatever the
  state of the generator, the single NPV sample is \<open>280 / 1.10 - 2000\<close>, that is
  -1745.4545...; the sales are 1000, the costs 600, the gross profit 400, the taxes 120
  and the net cash flow 280.
\<close>

theorem concrete_scenario_npv:
  "monte_carlo_simulation 1 1 0.10 1000 0 0.40 200 0.30 2000 g =
     Inr ([280 / 1.10 - 2000], \<lambda>k. g (k + 1))
   \<and> np_random_normal 1000 (0 * 1000) 1 g = Inr ([1000], \<lambda>k. g (k + 1))
   \<and> revenue 1000 = 1000
   \<and> costs 0.40 200 1000 = 600
   \<and> gross_profit 0.40 200 1000 = 400
   \<and> taxes 0.40 200 0.30 1000 = 120
   \<and> net_cash_flow 0.40 200 0.30 1000 = 280
   \<and> 280 / 1.10 - 2000 = (- 19200 / 11 :: real)
   \<and> (- 1745.4546 :: real) < 280 / 1.10 - 2000 \<and> 280 / 1.10 - 2000 < (- 1745.4545 :: real)"
  by (simp add: monte_carlo_simulation_def np_random_normal_def npv_def
      net_cash_flow_def taxes_def gross_profit_def costs_def revenue_def)

section \<open>No deviation\<close>

lemma sum_shift_discount:
  "(\<Sum>t<n. c / (1 + r) ^ (t + 1)) = c * (\<Sum>t = 1..n. 1 / (1 + r :: real) ^ t)"
proof -
  have "(\<Sum>t<n. c / (1 + r) ^ (t + 1)) = (\<Sum>t<n. c * (1 / (1 + r) ^ Suc t))"
    by simp
  also have "\<dots> = c * (\<Sum>t<n. 1 / (1 + r) ^ Suc t)"
    by (simp only: sum_distrib_left)
  also have "(\<Sum>t<n. 1 / (1 + r) ^ Suc t) = (\<Sum>t = 1..n. 1 / (1 + r) ^ t)"
    by (rule sum.reindex_bij_witness [where i = "\<lambda>t. t - 1" and j = Suc]) auto
  finally show ?thesis .
qed

text \<open>
  The discount factors of \<open>deterministic_npv\<close> add up to the annuity factor, for a rate
  other than 0 and -1.
\<close>

lemma annuity_factor:
  fixes r :: real
  assumes "r \<noteq> 0" "1 + r \<noteq> 0"
  shows "(\<Sum>t = 1..n. 1 / (1 + r) ^ t) = (1 - 1 / (1 + r) ^ n) / r"
proof (induction n)
  case 0
  show ?case by simp
next
  case (Suc n)
  have "(\<Sum>t = 1..Suc n. 1 / (1 + r) ^ t) = (\<Sum>t = 1..n. 1 / (1 + r) ^ t) + 1 / (1 + r) ^ Suc n"
    by simp
  also have "\<dots> = (1 - 1 / (1 + r) ^ n) / r + 1 / (1 + r) ^ Suc n"
    by (simp only: Suc.IH)
  also have "\<dots> = (1 - 1 / (1 + r) ^ Suc n) / r"
  proof -
    define p where "p = (1 + r) ^ n"
    have p: "p \<noteq> 0" using assms(2) by (simp add: p_def)
    have s: "1 + r \<noteq> 0" by (fact assms(2))
    have "(1 - 1 / p) / r + 1 / (p * (1 + r)) = (1 - 1 / (p * (1 + r))) / r"
      using assms(1) p s by (simp add: divide_simps) (simp add: algebra_simps)
    then show ?thesis by (simp add: p_def mult.commute)
  qed
  finally show ?case .
qed

text \<open>
  C5. With \<open>sales_deviation = 0\<close> and a horizon that is not negative, every sampled sales
  value of every trial is \<open>base_sales\<close>, whatever the state of the generator, and all
  \<open>num_simulations\<close> NPV samples are the same number: the deterministic discounted cash
  flow \<open>deterministic_npv\<close> of the parameters.
\<close>

theorem zero_deviation_is_deterministic:
  assumes "0 \<le> years"
  shows "np_random_normal base_sales (0 * base_sales) years g =
       Inr (replicate (nat years) base_sales, \<lambda>k. g (k + nat years))
     \<and> monte_carlo_simulation num_simulations years discount_rate base_sales 0
         variable_cost_pct fixed_costs tax_rate initial_investment g =
       Inr (replicate (nat num_simulations)
              (deterministic_npv years discount_rate base_sales variable_cost_pct fixed_costs
                 tax_rate initial_investment),
            \<lambda>k. g (k + nat num_simulations * nat years))"
proof
  show "np_random_normal base_sales (0 * base_sales) years g =
       Inr (replicate (nat years) base_sales, \<lambda>k. g (k + nat years))"
    using assms by (simp add: np_random_normal_def map_replicate_const)
next
  have z: "0 \<le> 0 * base_sales" by simp
  have n: "net_cash_flow variable_cost_pct fixed_costs tax_rate base_sales =
      ((1 - variable_cost_pct) * base_sales - fixed_costs) * (1 - tax_rate)"
    by (simp add: net_cash_flow_def taxes_def gross_profit_def costs_def revenue_def
        algebra_simps)
  have d: "(\<Sum>t<nat years.
        net_cash_flow variable_cost_pct fixed_costs tax_rate
          (base_sales + 0 * base_sales * g (i * nat years + t)) / (1 + discount_rate) ^ (t + 1))
      - initial_investment =
      deterministic_npv years discount_rate base_sales variable_cost_pct fixed_costs
        tax_rate initial_investment" for i
  proof -
    have "(\<Sum>t<nat years.
        net_cash_flow variable_cost_pct fixed_costs tax_rate
          (base_sales + 0 * base_sales * g (i * nat years + t)) / (1 + discount_rate) ^ (t + 1)) =
      (\<Sum>t<nat years.
        net_cash_flow variable_cost_pct fixed_costs tax_rate base_sales
          / (1 + discount_rate) ^ (t + 1))"
      by simp
    also have "\<dots> = net_cash_flow variable_cost_pct fixed_costs tax_rate base_sales
        * (\<Sum>t = 1..nat years. 1 / (1 + discount_rate) ^ t)"
      by (rule sum_shift_discount)
    finally show ?thesis
      unfolding deterministic_npv_def n by simp
  qed
  show "monte_carlo_simulation num_simulations years discount_rate base_sales 0
         variable_cost_pct fixed_costs tax_rate initial_investment g =
       Inr (replicate (nat num_simulations)
              (deterministic_npv years discount_rate base_sales variable_cost_pct fixed_costs
                 tax_rate initial_investment),
            \<lambda>k. g (k + nat num_simulations * nat years))"
    unfolding monte_carlo_simulation_eq [OF z assms] d
    by (simp add: map_replicate_const)
qed

text \<open>
  The theorem at three trials of two years with the draws 0, 1, 2, ...: the sales are
  1000 in both years and the three samples are \<open>280 / 1.10 + 280 / 1.10\<^sup>2 - 2000\<close>.
\<close>

theorem zero_deviation_is_deterministic_witness:
  "(0::int) \<le> 2
   \<and> np_random_normal 1000 (0 * 1000) 2 (\<lambda>k. real k) = Inr ([1000, 1000], \<lambda>k. real (k + 2))
   \<and> monte_carlo_simulation 3 2 0.10 1000 0 0.40 200 0.30 2000 (\<lambda>k. real k) =
       Inr ([deterministic_npv 2 0.10 1000 0.40 200 0.30 2000,
             deterministic_npv 2 0.10 1000 0.40 200 0.30 2000,
             deterministic_npv 2 0.10 1000 0.40 200 0.30 2000], \<lambda>k. real (k + 6))
   \<and> deterministic_npv 2 0.10 1000 0.40 200 0.30 2000 = 280 / 1.10 + 280 / 1.10\<^sup>2 - 2000"
  using zero_deviation_is_deterministic [of 2 1000 "\<lambda>k. real k" 3 "0.10" "0.40" 200 "0.30" 2000]
  by (simp add: eval_nat_numeral deterministic_npv_def)

section \<open>A larger initial investment\<close>


text \<open>
  An instance: two trials of two years with the draws 0, 1, 2, ..., and 500 more
  invested.
\<close>

lemma more_invested_example:
  "monte_carlo_simulation 2 2 0.10 1000 0.20 0.40 200 0.30 2000 (\<lambda>k. real k) =
     Inr ([280 / 1.10 + 364 / 1.10\<^sup>2 - 2000, 448 / 1.10 + 532 / 1.10\<^sup>2 - 2000],
          \<lambda>k. real (k + 4))
   \<and> monte_carlo_simulation 2 2 0.10 1000 0.20 0.40 200 0.30 (2000 + 500) (\<lambda>k. real k) =
     Inr ([280 / 1.10 + 364 / 1.10\<^sup>2 - 2000 - 500, 448 / 1.10 + 532 / 1.10\<^sup>2 - 2000 - 500],
          \<lambda>k. real (k + 4))"
  by (simp add: monte_carlo_simulation_def np_random_normal_def npv_def
      net_cash_flow_def taxes_def gross_profit_def costs_def revenue_def eval_nat_numeral
      upt_rec)

section \<open>The percentiles\<close>

text \<open>
  Linear interpolation between the order statistics of a sorted list is monotone in the
  index, between the first and the last position.
\<close>

lemma interpolation_mono:
  fixes ys :: "real list"
  assumes s: "sorted ys" and x0: "0 \<le> x" and xy: "x \<le> y" and yn: "y \<le> real (length ys - 1)"
    and ne: "ys \<noteq> []"
  shows "ys ! nat \<lfloor>x\<rfloor> + (x - real (nat \<lfloor>x\<rfloor>)) *
           (ys ! min (nat \<lfloor>x\<rfloor> + 1) (length ys - 1) - ys ! nat \<lfloor>x\<rfloor>)
       \<le> ys ! nat \<lfloor>y\<rfloor> + (y - real (nat \<lfloor>y\<rfloor>)) *
           (ys ! min (nat \<lfloor>y\<rfloor> + 1) (length ys - 1) - ys ! nat \<lfloor>y\<rfloor>)"
proof -
  define i where "i = nat \<lfloor>x\<rfloor>"
  define j where "j = nat \<lfloor>y\<rfloor>"
  define n where "n = length ys"
  have n1: "1 \<le> n" using ne by (cases ys) (simp_all add: n_def)
  have y0: "0 \<le> y" using x0 xy by simp
  have ri: "real i = of_int \<lfloor>x\<rfloor>" using x0 by (simp add: i_def)
  have rj: "real j = of_int \<lfloor>y\<rfloor>" using y0 by (simp add: j_def)
  have fx: "0 \<le> x - real i" "x - real i < 1" unfolding ri by linarith+
  have fy: "0 \<le> y - real j" "y - real j < 1" unfolding rj by linarith+
  have ij: "i \<le> j" unfolding i_def j_def using xy by (simp add: floor_mono nat_mono)
  have "real j \<le> real (n - 1)" using fy(1) yn by (simp add: n_def)
  then have jn: "j \<le> n - 1" by simp
  then have jl: "j < n" using n1 by simp
  have il: "i < n" using ij jl by simp
  have hi_i: "min (i + 1) (n - 1) < n" using n1 by simp
  have hi_j: "min (j + 1) (n - 1) < n" using n1 by simp
  have di: "ys ! i \<le> ys ! min (i + 1) (n - 1)"
    using s il hi_i by (intro sorted_nth_mono) (simp_all add: n_def)
  have dj: "ys ! j \<le> ys ! min (j + 1) (n - 1)"
    using s jl hi_j by (intro sorted_nth_mono) (simp_all add: n_def)
  show ?thesis
    unfolding i_def [symmetric] j_def [symmetric] n_def [symmetric]
  proof (cases "i = j")
    case True
    have "(x - real j) * (ys ! min (j + 1) (n - 1) - ys ! j)
        \<le> (y - real j) * (ys ! min (j + 1) (n - 1) - ys ! j)"
      using xy dj by (intro mult_right_mono) simp_all
    then show "ys ! i + (x - real i) * (ys ! min (i + 1) (n - 1) - ys ! i)
        \<le> ys ! j + (y - real j) * (ys ! min (j + 1) (n - 1) - ys ! j)"
      unfolding True by simp
  next
    case False
    then have lt: "i + 1 \<le> j" using ij by simp
    then have m: "min (i + 1) (n - 1) = i + 1" using jn by simp
    have "(x - real i) * (ys ! (i + 1) - ys ! i) \<le> 1 * (ys ! (i + 1) - ys ! i)"
      using fx di unfolding m by (intro mult_right_mono) simp_all
    then have "ys ! i + (x - real i) * (ys ! (i + 1) - ys ! i) \<le> ys ! (i + 1)"
      by simp
    also have "ys ! (i + 1) \<le> ys ! j"
      using s lt jl by (intro sorted_nth_mono) (simp_all add: n_def)
    also have "ys ! j \<le> ys ! j + (y - real j) * (ys ! min (j + 1) (n - 1) - ys ! j)"
      using fy(1) dj by simp
    finally show "ys ! i + (x - real i) * (ys ! min (i + 1) (n - 1) - ys ! i)
        \<le> ys ! j + (y - real j) * (ys ! min (j + 1) (n - 1) - ys ! j)"
      unfolding m .
  qed
qed

lemma np_percentile_mono:
  assumes "a \<noteq> []" "0 \<le> p" "p \<le> q" "q \<le> 100"
  shows "\<exists>x y. np_percentile a p = Some x \<and> np_percentile a q = Some y \<and> x \<le> y"
proof -
  let ?ys = "sort a"
  let ?n = "length a"
  have l: "length ?ys = ?n" by simp
  have ne: "?ys \<noteq> []" using assms(1) by (metis l length_0_conv)
  have a: "0 \<le> p / 100 * real (?n - 1)"
    using assms(2) by simp
  have b: "p / 100 * real (?n - 1) \<le> q / 100 * real (?n - 1)"
    using assms(3) by (intro mult_right_mono divide_right_mono) simp_all
  have "q / 100 * real (?n - 1) \<le> 1 * real (?n - 1)"
    using assms(4) by (intro mult_right_mono) simp_all
  then have c: "q / 100 * real (?n - 1) \<le> real (length ?ys - 1)"
    by simp
  have "sorted ?ys" by simp
  from interpolation_mono [OF this a b c ne]
  show ?thesis
    using assms by (simp add: np_percentile_def Let_def)
qed

text \<open>
  C7. For every non-empty sequence of NPV samples the 5th and the 95th percentile,
  computed by linear interpolation between order statistics, both exist and the 5th is
  at most the 95th. Nothing is said of the mean.
\<close>

theorem percentile_5_le_percentile_95:
  assumes "npv_simulations \<noteq> []"
  shows "\<exists>percentile_5 percentile_95.
     np_percentile npv_simulations 5 = Some percentile_5
     \<and> np_percentile npv_simulations 95 = Some percentile_95
     \<and> percentile_5 \<le> percentile_95"
  using np_percentile_mono [OF assms, of 5 95] by simp

text \<open>
  The theorem at the samples 3, 1, 2, 10: the order statistics are 1, 2, 3, 10, the
  indices 0.15 and 2.85, the percentiles 1.15 and 8.95.
\<close>

theorem percentile_5_le_percentile_95_witness:
  "[3, 1, 2, 10] \<noteq> ([] :: real list)
   \<and> np_percentile [3, 1, 2, 10] 5 = Some 1.15
   \<and> np_percentile [3, 1, 2, 10] 95 = Some 8.95
   \<and> (1.15 :: real) \<le> 8.95"
  using percentile_5_le_percentile_95 [of "[3, 1, 2, 10]"]
  by (simp add: np_percentile_def Let_def)

section \<open>The same seed\<close>

text \<open>
  C10. Two calls of the engine with the same parameters, on generators that hand out the
  same draws, return the same NPV samples in the same order, or raise the same
  exception. The calls read only the first \<open>num_simulations * years\<close> draws, so it is
  enough that the two generators agree on these; two generators in the same state agree
  on every draw. (\<open>map_sum id fst\<close> keeps the exception or the returned samples and drops
  the state the generator is left in.)
\<close>

theorem same_draws_same_samples:
  assumes "\<forall>k < nat num_simulations * nat years. g k = g' k"
  shows "map_sum id fst
       (monte_carlo_simulation num_simulations years discount_rate base_sales sales_deviation
          variable_cost_pct fixed_costs tax_rate initial_investment g) =
     map_sum id fst
       (monte_carlo_simulation num_simulations years discount_rate base_sales sales_deviation
          variable_cost_pct fixed_costs tax_rate initial_investment g')"
proof (cases "0 \<le> sales_deviation * base_sales \<and> 0 \<le> years")
  case True
  then have ok: "0 \<le> sales_deviation * base_sales" "0 \<le> years" by simp_all
  have "g (i * nat years + t) = g' (i * nat years + t)"
    if "i < nat num_simulations" "t < nat years" for i t
  proof -
    have "i * nat years + t < Suc i * nat years" using that(2) by simp
    also have "\<dots> \<le> nat num_simulations * nat years"
      using that(1) by (intro mult_le_mono1) simp
    finally show ?thesis using assms by blast
  qed
  then show ?thesis
    unfolding monte_carlo_simulation_eq [OF ok] by simp
next
  case False
  then have bad: "sales_deviation * base_sales < 0 \<or> years < 0" by auto
  show ?thesis
  proof (cases "1 \<le> num_simulations")
    case True
    show ?thesis
      unfolding monte_carlo_simulation_fails [OF bad True] by simp
  next
    case False
    then have "num_simulations \<le> 0" by simp
    then show ?thesis
      by (simp add: monte_carlo_simulation_no_trials)
  qed
qed

text \<open>
  The theorem at two trials of two years, on the draws 0, 1, 2, 3, 4, ... and on the
  draws 0, 1, 2, 3, 0, 0, ...: the generators differ from the fifth draw on, and the
  samples are the same.
\<close>

theorem same_draws_same_samples_witness:
  "(\<lambda>k. real k) 4 \<noteq> (\<lambda>k. if k < 4 then real k else 0) 4
   \<and> map_sum id fst
       (monte_carlo_simulation 2 2 0.10 1000 0.20 0.40 200 0.30 2000 (\<lambda>k. real k)) =
     map_sum id fst
       (monte_carlo_simulation 2 2 0.10 1000 0.20 0.40 200 0.30 2000
          (\<lambda>k. if k < 4 then real k else 0))
   \<and> map_sum id fst
       (monte_carlo_simulation 2 2 0.10 1000 0.20 0.40 200 0.30 2000
          (\<lambda>k. if k < 4 then real k else 0)) =
     Inr [280 / 1.10 + 364 / 1.10\<^sup>2 - 2000, 448 / 1.10 + 532 / 1.10\<^sup>2 - 2000]"
proof -
  have h: "\<forall>k < nat 2 * nat 2. real k = (if k < 4 then real k else 0)"
    by simp
  have d: "(\<lambda>k. real k) 4 \<noteq> (\<lambda>k. if k < 4 then real k else 0) 4"
    by simp
  have r: "map_sum id fst
       (monte_carlo_simulation 2 2 0.10 1000 0.20 0.40 200 0.30 2000
          (\<lambda>k. if k < 4 then real k else 0)) =
     Inr [280 / 1.10 + 364 / 1.10\<^sup>2 - 2000, 448 / 1.10 + 532 / 1.10\<^sup>2 - 2000]"
    by (simp add: monte_carlo_simulation_def np_random_normal_def npv_def
        net_cash_flow_def taxes_def gross_profit_def costs_def revenue_def eval_nat_numeral
        upt_rec)
  show ?thesis
    by (intro conjI d r
        same_draws_same_samples [of 2 2 "\<lambda>k. real k" "\<lambda>k. if k < 4 then real k else 0", OF h])
qed

end
